theory Spec2Isabelle
  imports Complex_Main "HOL-Library.AList"
begin

section \<open>Python values\<close>

text \<open>
  A Python number (int or float) is modelled by its value. The rounding of double
  arithmetic is not modelled; the non-finite floats are kept, since comparison and
  \<^verbatim>\<open>float()\<close> tell them apart.
\<close>

datatype pynum = Fin rat | PInf | NInf | NaN

text \<open>\<^verbatim>\<open>a > b\<close> on numbers: every comparison with nan is false.\<close>

fun num_gt :: "pynum \<Rightarrow> pynum \<Rightarrow> bool" where
  "num_gt NaN b = False"
| "num_gt a NaN = False"
| "num_gt (Fin a) (Fin b) = (b < a)"
| "num_gt (Fin a) PInf = False"
| "num_gt (Fin a) NInf = True"
| "num_gt PInf PInf = False"
| "num_gt PInf b = True"
| "num_gt NInf b = False"

fun num_add :: "pynum \<Rightarrow> pynum \<Rightarrow> pynum" where
  "num_add NaN b = NaN"
| "num_add a NaN = NaN"
| "num_add (Fin a) (Fin b) = Fin (a + b)"
| "num_add PInf NInf = NaN"
| "num_add NInf PInf = NaN"
| "num_add PInf b = PInf"
| "num_add NInf b = NInf"
| "num_add (Fin a) b = b"

definition inf_times :: "bool \<Rightarrow> rat \<Rightarrow> pynum" where
  "inf_times positive r =
     (if r = 0 then NaN else if (0 < r) = positive then PInf else NInf)"

fun num_mul :: "pynum \<Rightarrow> pynum \<Rightarrow> pynum" where
  "num_mul NaN b = NaN"
| "num_mul a NaN = NaN"
| "num_mul (Fin a) (Fin b) = Fin (a * b)"
| "num_mul PInf (Fin b) = inf_times True b"
| "num_mul NInf (Fin b) = inf_times False b"
| "num_mul (Fin a) PInf = inf_times True a"
| "num_mul (Fin a) NInf = inf_times False a"
| "num_mul PInf PInf = PInf"
| "num_mul NInf NInf = PInf"
| "num_mul PInf NInf = NInf"
| "num_mul NInf PInf = NInf"

text \<open>The exceptions the code can meet; \<open>ExchangeError\<close> is anything a ccxt client raises.\<close>

datatype exn =
    TypeError | AttributeError | KeyError | ValueError | OverflowError | JSONDecodeError
  | ExchangeError string

text \<open>
  A value read from a dict of scalars. Numbers that ccxt reports are floats, so
  \<open>PyNum\<close> stands for a float in the two operators below.
\<close>

datatype pyval = PyNone | PyNum pynum | PyStr string

text \<open>\<^verbatim>\<open>acc += v\<close> where \<open>acc\<close> is a float.\<close>

fun py_iadd :: "pynum \<Rightarrow> pyval \<Rightarrow> exn + pynum" where
  "py_iadd acc (PyNum n) = Inr (num_add acc n)"
| "py_iadd acc v = Inl TypeError"

text \<open>\<^verbatim>\<open>a * b\<close>; a str times a float, and None times anything, raise TypeError.\<close>

fun py_mul :: "pyval \<Rightarrow> pyval \<Rightarrow> exn + pyval" where
  "py_mul (PyNum a) (PyNum b) = Inr (PyNum (num_mul a b))"
| "py_mul a b = Inl TypeError"

section \<open>JSON payloads and strings\<close>

text \<open>
  What \<^verbatim>\<open>json.loads\<close> and Flask's \<^verbatim>\<open>request.json\<close> return: None, bool, int, float,
  str, list or dict. The items of a dict have distinct keys. A str is its text in UTF-8,
  and the operations on strings below are those of ASCII text.
\<close>

datatype json =
    JNull | JBool bool | JInt int | JFloat pynum | JStr string
  | JArr "json list" | JObj "(string \<times> json) list"

definition lower_char :: "char \<Rightarrow> char" where
  "lower_char c =
     (case map_of (zip ''ABCDEFGHIJKLMNOPQRSTUVWXYZ'' ''abcdefghijklmnopqrstuvwxyz'') c of
        None \<Rightarrow> c
      | Some l \<Rightarrow> l)"

text \<open>\<^verbatim>\<open>s.lower()\<close>\<close>

definition lower :: "string \<Rightarrow> string" where
  "lower s = map lower_char s"

text \<open>The ASCII characters that \<^verbatim>\<open>str.strip()\<close> and \<^verbatim>\<open>float()\<close> take for whitespace.\<close>

definition is_space :: "char \<Rightarrow> bool" where
  "is_space c =
     (c \<in> set [CHR 0x20, CHR 0x09, CHR 0x0A, CHR 0x0B, CHR 0x0C, CHR 0x0D,
                CHR 0x1C, CHR 0x1D, CHR 0x1E, CHR 0x1F])"

text \<open>\<^verbatim>\<open>s.strip()\<close>\<close>

definition strip :: "string \<Rightarrow> string" where
  "strip s = rev (dropWhile is_space (rev (dropWhile is_space s)))"

text \<open>\<^verbatim>\<open>key in s\<close> for two strings: \<open>key\<close> occurs in \<open>s\<close>.\<close>

definition has_substring :: "string \<Rightarrow> string \<Rightarrow> bool" where
  "has_substring key s =
     list_ex (\<lambda>i. take (length key) (drop i s) = key) [0 ..< Suc (length s)]"

subsection \<open>The builtin float()\<close>

text \<open>
  \<^verbatim>\<open>float(s)\<close> for a string follows the grammar of the language reference: optional
  whitespace around an optional sign and then \<^verbatim>\<open>inf\<close>, \<^verbatim>\<open>infinity\<close> or \<^verbatim>\<open>nan\<close> in any
  case, or a decimal number with an optional exponent, whose digit groups may hold
  single underscores between digits. A decimal beyond the largest double becomes an
  infinity; a ValueError is raised for anything else. The sign of zero is not kept.
\<close>

definition is_digit :: "char \<Rightarrow> bool" where
  "is_digit c = (c \<in> set ''0123456789'')"

definition digit_val :: "char \<Rightarrow> nat" where
  "digit_val c =
     (case map_of (zip ''0123456789'' [0, 1, 2, 3, 4, 5, 6, 7, 8, 9]) c of
        None \<Rightarrow> 0
      | Some d \<Rightarrow> d)"

definition digits_val :: "string \<Rightarrow> nat" where
  "digits_val ds = foldl (\<lambda>a d. 10 * a + digit_val d) 0 ds"

text \<open>After a digit: the further digits of the group, and what follows the group.\<close>

fun more_digits :: "string \<Rightarrow> string \<times> string" where
  "more_digits [] = ([], [])"
| "more_digits [c] = (if is_digit c then ([c], []) else ([], [c]))"
| "more_digits (c # d # cs) =
     (if is_digit c then (case more_digits (d # cs) of (ds, r) \<Rightarrow> (c # ds, r))
      else if c = CHR ''_'' \<and> is_digit d then (case more_digits cs of (ds, r) \<Rightarrow> (d # ds, r))
      else ([], c # d # cs))"

definition digitpart :: "string \<Rightarrow> (string \<times> string) option" where
  "digitpart s =
     (case s of
        [] \<Rightarrow> None
      | c # cs \<Rightarrow>
          if is_digit c then (case more_digits cs of (ds, r) \<Rightarrow> Some (c # ds, r)) else None)"

text \<open>The integer digits, the fraction digits, and what follows the number.\<close>

definition number_part :: "string \<Rightarrow> (string \<times> string \<times> string) option" where
  "number_part s =
     (case digitpart s of
        Some (ip, r) \<Rightarrow>
          (case r of
             [] \<Rightarrow> Some (ip, [], [])
           | c # r' \<Rightarrow>
               if c = CHR ''.''
               then (case digitpart r' of
                       Some (fp, r'') \<Rightarrow> Some (ip, fp, r'')
                     | None \<Rightarrow> Some (ip, [], r'))
               else Some (ip, [], r))
      | None \<Rightarrow>
          (case s of
             [] \<Rightarrow> None
           | c # r' \<Rightarrow>
               if c = CHR ''.''
               then (case digitpart r' of
                       Some (fp, r'') \<Rightarrow> Some ([], fp, r'')
                     | None \<Rightarrow> None)
               else None))"

definition split_sign :: "string \<Rightarrow> bool \<times> string" where
  "split_sign s =
     (case s of
        [] \<Rightarrow> (False, [])
      | c # cs \<Rightarrow>
          if c = CHR ''-'' then (True, cs) else if c = CHR ''+'' then (False, cs) else (False, s))"

text \<open>The exponent that ends the literal: absent, or \<^verbatim>\<open>e\<close>, a sign and a digit group.\<close>

definition exponent_part :: "string \<Rightarrow> int option" where
  "exponent_part s =
     (case s of
        [] \<Rightarrow> Some 0
      | c # cs \<Rightarrow>
          if c = CHR ''e'' \<or> c = CHR ''E''
          then (case split_sign cs of
                  (neg, t) \<Rightarrow>
                    (case digitpart t of
                       Some (ds, []) \<Rightarrow>
                         Some (if neg then - int (digits_val ds) else int (digits_val ds))
                     | _ \<Rightarrow> None))
          else None)"

definition scale10 :: "nat \<Rightarrow> int \<Rightarrow> rat" where
  "scale10 n e = (if 0 \<le> e then of_nat n * 10 ^ nat e else of_nat n / 10 ^ nat (- e))"

text \<open>Half way from the largest double to \<open>2 ^ 1024\<close>: from there on a value rounds out of range.\<close>

definition double_limit :: rat where
  "double_limit = 2 ^ 1024 - 2 ^ 970"

definition to_double_range :: "rat \<Rightarrow> pynum" where
  "to_double_range v =
     (if double_limit \<le> v then PInf else if v \<le> - double_limit then NInf else Fin v)"

definition parse_float :: "string \<Rightarrow> pynum option" where
  "parse_float s =
     (case split_sign (strip s) of
        (neg, t) \<Rightarrow>
          if lower t = ''inf'' \<or> lower t = ''infinity'' then Some (if neg then NInf else PInf)
          else if lower t = ''nan'' then Some NaN
          else (case number_part t of
                  None \<Rightarrow> None
                | Some (ip, fp, r) \<Rightarrow>
                    (case exponent_part r of
                       None \<Rightarrow> None
                     | Some e \<Rightarrow>
                         (let v = scale10 (digits_val (ip @ fp)) (e - int (length fp))
                          in Some (to_double_range (if neg then - v else v))))))"

text \<open>\<^verbatim>\<open>float(v)\<close> for a JSON value.\<close>

fun py_float :: "json \<Rightarrow> exn + pynum" where
  "py_float (JStr s) = (case parse_float s of None \<Rightarrow> Inl ValueError | Some n \<Rightarrow> Inr n)"
| "py_float (JFloat n) = Inr n"
| "py_float (JInt i) =
     (if double_limit \<le> of_int \<bar>i\<bar> then Inl OverflowError else Inr (Fin (of_int i)))"
| "py_float (JBool b) = Inr (Fin (if b then 1 else 0))"
| "py_float v = Inl TypeError"

subsection \<open>Operations on a payload\<close>

text \<open>\<^verbatim>\<open>key in data\<close>\<close>

fun py_contains :: "json \<Rightarrow> string \<Rightarrow> exn + bool" where
  "py_contains (JObj d) key = Inr (map_of d key \<noteq> None)"
| "py_contains (JArr l) key = Inr (JStr key \<in> set l)"
| "py_contains (JStr s) key = Inr (has_substring key s)"
| "py_contains v key = Inl TypeError"

text \<open>\<^verbatim>\<open>data[key]\<close> for a string key\<close>

fun py_getitem :: "json \<Rightarrow> string \<Rightarrow> exn + json" where
  "py_getitem (JObj d) key = (case map_of d key of None \<Rightarrow> Inl KeyError | Some v \<Rightarrow> Inr v)"
| "py_getitem v key = Inl TypeError"

text \<open>\<^verbatim>\<open>data.get(key, default)\<close>: only a dict has the method.\<close>

fun py_get :: "json \<Rightarrow> string \<Rightarrow> json \<Rightarrow> exn + json" where
  "py_get (JObj d) key dflt = Inr (case map_of d key of None \<Rightarrow> dflt | Some v \<Rightarrow> v)"
| "py_get v key dflt = Inl AttributeError"

text \<open>\<^verbatim>\<open>v.lower()\<close>: only a str has the method.\<close>

fun py_lower :: "json \<Rightarrow> exn + string" where
  "py_lower (JStr s) = Inr (lower s)"
| "py_lower v = Inl AttributeError"

text \<open>The truth value of a payload, as \<^verbatim>\<open>if alert_data:\<close> takes it.\<close>

fun py_truthy :: "json \<Rightarrow> bool" where
  "py_truthy JNull = False"
| "py_truthy (JBool b) = b"
| "py_truthy (JInt i) = (i \<noteq> 0)"
| "py_truthy (JFloat n) = (n \<noteq> Fin 0)"
| "py_truthy (JStr s) = (s \<noteq> [])"
| "py_truthy (JArr l) = (l \<noteq> [])"
| "py_truthy (JObj d) = (d \<noteq> [])"

section \<open>Positions as ccxt reports them\<close>

text \<open>
  A key of a dict that ccxt returns is absent, holds None, or holds a value of the type
  the unified ccxt structure gives it. \<open>dict_get\<close> is \<^verbatim>\<open>d.get(key, default)\<close>, with
  \<open>None\<close> for Python's None.
\<close>

datatype 'a field = Absent | Null | Val 'a

fun dict_get :: "'a field \<Rightarrow> 'a option \<Rightarrow> 'a option" where
  "dict_get Absent d = d"
| "dict_get Null d = None"
| "dict_get (Val v) d = Some v"

record raw_position =
  r_symbol :: "string field"
  r_side :: "string field"
  r_contracts :: "pynum field"
  r_notional :: "pynum field"
  r_entryPrice :: "pynum field"
  r_liquidationPrice :: "pynum field"
  r_marginRatio :: "pynum field"
  r_leverage :: "pynum field"
  r_unrealizedPnl :: "pynum field"

text \<open>The dict that \<^verbatim>\<open>get_positions\<close> builds for an open position (its ten keys).\<close>

record position =
  symbol :: "string option"
  side :: "string option"
  contracts :: "pynum option"
  notional :: "pynum option"
  entry_price :: "pynum option"
  liquidation_price :: "pynum option"
  margin_ratio :: "pynum option"
  leverage :: "pynum option"
  unrealized_pnl :: "pynum option"
  exchange :: string

definition of_str :: "string option \<Rightarrow> pyval" where
  "of_str v = (case v of None \<Rightarrow> PyNone | Some s \<Rightarrow> PyStr s)"

definition of_num :: "pynum option \<Rightarrow> pyval" where
  "of_num v = (case v of None \<Rightarrow> PyNone | Some n \<Rightarrow> PyNum n)"

text \<open>The items of that dict, each key with its value.\<close>

definition position_items :: "position \<Rightarrow> (string \<times> pyval) list" where
  "position_items p =
     [(''symbol'', of_str (symbol p)),
      (''side'', of_str (side p)),
      (''contracts'', of_num (contracts p)),
      (''notional'', of_num (notional p)),
      (''entry_price'', of_num (entry_price p)),
      (''liquidation_price'', of_num (liquidation_price p)),
      (''margin_ratio'', of_num (margin_ratio p)),
      (''leverage'', of_num (leverage p)),
      (''unrealized_pnl'', of_num (unrealized_pnl p)),
      (''exchange'', PyStr (exchange p))]"

text \<open>\<^verbatim>\<open>pos.get(key, default)\<close> on that dict.\<close>

definition position_get :: "position \<Rightarrow> string \<Rightarrow> pyval \<Rightarrow> pyval" where
  "position_get p key d = (case map_of (position_items p) key of None \<Rightarrow> d | Some v \<Rightarrow> v)"

text \<open>
  The balance ccxt returns: currency to account, an account being a dict of numbers
  (\<open>None\<close> for Python's None).
\<close>

type_synonym balance = "(string \<times> (string \<times> pynum option) list) list"

section \<open>The exchange clients and what is observed of a run\<close>

text \<open>
  A ccxt client is outside the repository: each method is a function of the state of the
  world \<open>'w\<close> that raises or returns, and changes the world. An order is the record the
  exchange returns, kept opaque.
\<close>

type_synonym order = string

record 'w exchange_client =
  fetch_positions :: "'w \<Rightarrow> (exn + raw_position list) \<times> 'w"
  fetch_balance :: "'w \<Rightarrow> (exn + balance) \<times> 'w"
  create_market_order ::
    "string option \<Rightarrow> string \<Rightarrow> pynum option \<Rightarrow> 'w \<Rightarrow> (exn + order) \<times> 'w"
  create_order ::
    "json \<Rightarrow> string \<Rightarrow> string \<Rightarrow> pynum \<Rightarrow> pynum option \<Rightarrow> 'w \<Rightarrow> (exn + order) \<times> 'w"

text \<open>
  The module's \<^verbatim>\<open>exchanges\<close> dict, in insertion order; its keys are distinct.
\<close>

type_synonym 'w exchanges = "(string \<times> 'w exchange_client) list"

text \<open>
  Every operation returns its result, the world after it, and the events of the run in
  order: the calls made to the clients (for an order: exchange, symbol, side and amount,
  and for \<^verbatim>\<open>create_order\<close> the type and the price as well), each entry into
  \<^verbatim>\<open>close_position\<close>, and each \<^verbatim>\<open>mail.store\<close> that flags a message as seen.
\<close>

datatype event =
    FetchPositions string
  | FetchBalance string
  | CreateMarketOrder string "string option" string "pynum option"
  | CreateOrder string json string string pynum "pynum option"
  | CloseAttempt string "string option"
  | MarkSeen string

section \<open>bot\_logic.get\_positions\<close>

definition normalize :: "string \<Rightarrow> raw_position \<Rightarrow> position" where
  "normalize exchange_name pos =
     \<lparr> symbol = dict_get (r_symbol pos) (Some ''N/A''),
       side = dict_get (r_side pos) (Some ''N/A''),
       contracts = dict_get (r_contracts pos) (Some (Fin 0)),
       notional = dict_get (r_notional pos) (Some (Fin 0)),
       entry_price = dict_get (r_entryPrice pos) (Some (Fin 0)),
       liquidation_price = dict_get (r_liquidationPrice pos) None,
       margin_ratio = dict_get (r_marginRatio pos) None,
       leverage = dict_get (r_leverage pos) None,
       unrealized_pnl = dict_get (r_unrealizedPnl pos) (Some (Fin 0)),
       exchange = exchange_name \<rparr>"

text \<open>
  The loop over \<^verbatim>\<open>all_positions\<close>; \<open>acc\<close> is \<^verbatim>\<open>positions_data[exchange_name]\<close>.
  When \<^verbatim>\<open>contracts\<close> is None the comparison raises TypeError: the \<^verbatim>\<open>except\<close> clause
  around the loop logs it, and the positions appended so far stay.
\<close>

fun active_positions :: "string \<Rightarrow> raw_position list \<Rightarrow> position list \<Rightarrow> position list" where
  "active_positions exchange_name [] acc = acc"
| "active_positions exchange_name (pos # rest) acc =
     (case dict_get (r_contracts pos) (Some (Fin 0)) of
        None \<Rightarrow> acc
      | Some c \<Rightarrow>
          if num_gt c (Fin 0)
          then active_positions exchange_name rest (acc @ [normalize exchange_name pos])
          else active_positions exchange_name rest acc)"

type_synonym positions_data = "(string \<times> position list) list"

fun get_positions_loop ::
  "'w exchanges \<Rightarrow> positions_data \<Rightarrow> 'w \<Rightarrow> positions_data \<times> 'w \<times> event list" where
  "get_positions_loop [] positions_data w = (positions_data, w, [])"
| "get_positions_loop ((exchange_name, ex) # rest) positions_data w =
     (let pd0 = AList.update exchange_name [] positions_data in
      case fetch_positions ex w of
        (Inl e, w1) \<Rightarrow>
          (case get_positions_loop rest pd0 w1 of
             (pd, w2, evs) \<Rightarrow> (pd, w2, FetchPositions exchange_name # evs))
      | (Inr all_positions, w1) \<Rightarrow>
          (case get_positions_loop rest
                  (AList.update exchange_name
                     (active_positions exchange_name all_positions []) pd0) w1 of
             (pd, w2, evs) \<Rightarrow> (pd, w2, FetchPositions exchange_name # evs)))"

definition get_positions :: "'w exchanges \<Rightarrow> 'w \<Rightarrow> positions_data \<times> 'w \<times> event list" where
  "get_positions exchanges w =
     (if exchanges = [] then ([], w, []) else get_positions_loop exchanges [] w)"

text \<open>\<^verbatim>\<open>d.get(exchange_name, [])\<close> on the positions data.\<close>

definition positions_of :: "positions_data \<Rightarrow> string \<Rightarrow> position list" where
  "positions_of positions_data exchange_name =
     (case map_of positions_data exchange_name of None \<Rightarrow> [] | Some ps \<Rightarrow> ps)"

section \<open>bot\_logic.close\_position and close\_all\_positions\<close>

text \<open>
  The four results of \<^verbatim>\<open>close_position\<close>: \<^verbatim>\<open>{"status": "success", "order": order}\<close>,
  and \<^verbatim>\<open>{"status": "error", "message": m}\<close> with \<open>m\<close> the exchange-not-found message,
  the no-open-position message, or the text of a caught exception.
\<close>

datatype close_result =
    Success order | ExchangeNotFound string | NoOpenPosition | CloseFailed exn

definition closing_side :: "string option \<Rightarrow> string" where
  "closing_side s = (if s = Some ''buy'' \<or> s = Some ''long'' then ''sell'' else ''buy'')"

definition close_position ::
  "'w exchanges \<Rightarrow> string \<Rightarrow> string option \<Rightarrow> 'w \<Rightarrow> close_result \<times> 'w \<times> event list" where
  "close_position exchanges exchange_name target w =
     (case map_of exchanges exchange_name of
        None \<Rightarrow> (ExchangeNotFound exchange_name, w, [CloseAttempt exchange_name target])
      | Some ex \<Rightarrow>
          (case get_positions exchanges w of
             (pd, w1, evs) \<Rightarrow>
               (case find (\<lambda>pos. symbol pos = target) (positions_of pd exchange_name) of
                  None \<Rightarrow> (NoOpenPosition, w1, CloseAttempt exchange_name target # evs)
                | Some pos \<Rightarrow>
                    (case create_market_order ex target (closing_side (side pos))
                            (contracts pos) w1 of
                       (r, w2) \<Rightarrow>
                         ((case r of Inl e \<Rightarrow> CloseFailed e | Inr order \<Rightarrow> Success order),
                          w2,
                          CloseAttempt exchange_name target # evs @
                            [CreateMarketOrder exchange_name target (closing_side (side pos))
                               (contracts pos)])))))"

text \<open>The key \<^verbatim>\<open>f"{exchange_name}_{pos['symbol']}"\<close>; None is formatted as \<^verbatim>\<open>None\<close>.\<close>

definition py_str :: "string option \<Rightarrow> string" where
  "py_str v = (case v of None \<Rightarrow> ''None'' | Some s \<Rightarrow> s)"

definition result_key :: "string \<Rightarrow> string option \<Rightarrow> string" where
  "result_key exchange_name s = exchange_name @ ''_'' @ py_str s"

type_synonym close_results = "(string \<times> close_result) list"

text \<open>The inner loop of \<^verbatim>\<open>close_all_positions\<close>, over the positions of one exchange.\<close>

fun close_each ::
  "'w exchanges \<Rightarrow> string \<Rightarrow> position list \<Rightarrow> close_results \<Rightarrow> 'w \<Rightarrow>
   close_results \<times> 'w \<times> event list" where
  "close_each exchanges exchange_name [] results w = (results, w, [])"
| "close_each exchanges exchange_name (pos # rest) results w =
     (case close_position exchanges exchange_name (symbol pos) w of
        (result, w1, evs1) \<Rightarrow>
          (case close_each exchanges exchange_name rest
                  (AList.update (result_key exchange_name (symbol pos)) result results) w1 of
             (results', w2, evs2) \<Rightarrow> (results', w2, evs1 @ evs2)))"

text \<open>The outer loop, over the items of the snapshot.\<close>

fun close_all_loop ::
  "'w exchanges \<Rightarrow> positions_data \<Rightarrow> close_results \<Rightarrow> 'w \<Rightarrow>
   close_results \<times> 'w \<times> event list" where
  "close_all_loop exchanges [] results w = (results, w, [])"
| "close_all_loop exchanges ((exchange_name, positions) # rest) results w =
     (case close_each exchanges exchange_name positions results w of
        (results1, w1, evs1) \<Rightarrow>
          (case close_all_loop exchanges rest results1 w1 of
             (results2, w2, evs2) \<Rightarrow> (results2, w2, evs1 @ evs2)))"

definition close_all_positions ::
  "'w exchanges \<Rightarrow> 'w \<Rightarrow> close_results \<times> 'w \<times> event list" where
  "close_all_positions exchanges w =
     (case get_positions exchanges w of
        (all_positions, w1, evs1) \<Rightarrow>
          (case close_all_loop exchanges all_positions [] w1 of
             (results, w2, evs2) \<Rightarrow> (results, w2, evs1 @ evs2)))"

section \<open>bot\_logic.calculate\_summary\_stats\<close>

record summary_stats =
  portfolio_value :: pynum
  total_pnl :: pynum
  margin_used :: pynum

text \<open>\<^verbatim>\<open>account_balance.get('USDT', {}).get('total', 0.0)\<close>\<close>

definition usdt_total :: "balance \<Rightarrow> pyval" where
  "usdt_total account_balance =
     (case map_of (case map_of account_balance ''USDT'' of None \<Rightarrow> [] | Some acct \<Rightarrow> acct)
             ''total'' of
        None \<Rightarrow> PyNum (Fin 0)
      | Some v \<Rightarrow> of_num v)"

text \<open>
  The loop over the positions of one exchange. The stats dict is updated in place, so
  when an operation raises, what was added before stays: the result is the stats at that
  point and the exception (which the caller's \<^verbatim>\<open>except\<close> clause logs).
\<close>

fun add_positions :: "position list \<Rightarrow> summary_stats \<Rightarrow> summary_stats \<times> exn option" where
  "add_positions [] st = (st, None)"
| "add_positions (pos # rest) st =
     (case py_iadd (total_pnl st) (position_get pos ''unrealized_pnl'' (PyNum (Fin 0))) of
        Inl e \<Rightarrow> (st, Some e)
      | Inr pnl \<Rightarrow>
          (let st1 = st\<lparr>total_pnl := pnl\<rparr>;
               margin_ratio = position_get pos ''marginRatio'' PyNone
           in if margin_ratio \<noteq> PyNone
              then (case py_mul (position_get pos ''notional'' (PyNum (Fin 0))) margin_ratio of
                      Inl e \<Rightarrow> (st1, Some e)
                    | Inr m \<Rightarrow>
                        (case py_iadd (margin_used st1) m of
                           Inl e \<Rightarrow> (st1, Some e)
                         | Inr used \<Rightarrow> add_positions rest (st1\<lparr>margin_used := used\<rparr>)))
              else add_positions rest st1))"

text \<open>The body of the \<^verbatim>\<open>try\<close> for one exchange, after its balance was fetched.\<close>

definition add_exchange ::
  "balance \<Rightarrow> position list \<Rightarrow> summary_stats \<Rightarrow> summary_stats \<times> exn option" where
  "add_exchange account_balance positions st =
     (case py_iadd (portfolio_value st) (usdt_total account_balance) of
        Inl e \<Rightarrow> (st, Some e)
      | Inr pv \<Rightarrow> add_positions positions (st\<lparr>portfolio_value := pv\<rparr>))"

fun summary_loop ::
  "'w exchanges \<Rightarrow> positions_data \<Rightarrow> summary_stats \<Rightarrow> 'w \<Rightarrow>
   summary_stats \<times> 'w \<times> event list" where
  "summary_loop [] all_positions st w = (st, w, [])"
| "summary_loop ((exchange_name, ex) # rest) all_positions st w =
     (case fetch_balance ex w of
        (Inl e, w1) \<Rightarrow>
          (case summary_loop rest all_positions st w1 of
             (st', w2, evs) \<Rightarrow> (st', w2, FetchBalance exchange_name # evs))
      | (Inr account_balance, w1) \<Rightarrow>
          (case summary_loop rest all_positions
                  (fst (add_exchange account_balance
                          (positions_of all_positions exchange_name) st)) w1 of
             (st', w2, evs) \<Rightarrow> (st', w2, FetchBalance exchange_name # evs)))"

definition zero_stats :: summary_stats where
  "zero_stats = \<lparr> portfolio_value = Fin 0, total_pnl = Fin 0, margin_used = Fin 0 \<rparr>"

definition calculate_summary_stats ::
  "'w exchanges \<Rightarrow> 'w \<Rightarrow> summary_stats \<times> 'w \<times> event list" where
  "calculate_summary_stats exchanges w =
     (if exchanges = [] then (zero_stats, w, [])
      else case get_positions exchanges w of
             (all_positions, w1, evs1) \<Rightarrow>
               (case summary_loop exchanges all_positions zero_stats w1 of
                  (st, w2, evs2) \<Rightarrow> (st, w2, evs1 @ evs2)))"

section \<open>signal\_handler.process\_signal\<close>

text \<open>
  The function returns None on every path; the outcome names the path taken, that is,
  the line it logs: a missing required field, a QUANTITY that is not a number, a wrong
  SIDE, a limit order without PRICE or with a PRICE that is not a number, an exchange
  that is not configured, an unsupported order type, the order placed, or an exception
  caught by the outer \<^verbatim>\<open>except Exception\<close>.
\<close>

datatype signal_outcome =
    MissingField string | InvalidQuantity | InvalidSide string | MissingPrice | InvalidPrice
  | ExchangeNotConfigured string | UnsupportedOrderType string | OrderPlaced order
  | ProcessingError exn

definition required_fields :: "string list" where
  "required_fields = [''EXCHANGE'', ''SYMBOL'', ''SIDE'', ''ORDER_TYPE'', ''QUANTITY'']"

text \<open>The loop over the required fields: the first one missing, if any.\<close>

fun first_missing :: "json \<Rightarrow> string list \<Rightarrow> exn + string option" where
  "first_missing data [] = Inr None"
| "first_missing data (field # rest) =
     (case py_contains data field of
        Inl e \<Rightarrow> Inl e
      | Inr present \<Rightarrow> if present then first_missing data rest else Inr (Some field))"

text \<open>
  The four reads that follow: the exchange name, the symbol, the side and the order type,
  the names in lower case.
\<close>

definition read_fields :: "json \<Rightarrow> exn + (string \<times> json \<times> string \<times> string)" where
  "read_fields data =
     (case py_getitem data ''EXCHANGE'' of
        Inl e \<Rightarrow> Inl e
      | Inr v1 \<Rightarrow>
     (case py_lower v1 of
        Inl e \<Rightarrow> Inl e
      | Inr exchange_name \<Rightarrow>
     (case py_getitem data ''SYMBOL'' of
        Inl e \<Rightarrow> Inl e
      | Inr smb \<Rightarrow>
     (case py_getitem data ''SIDE'' of
        Inl e \<Rightarrow> Inl e
      | Inr v2 \<Rightarrow>
     (case py_lower v2 of
        Inl e \<Rightarrow> Inl e
      | Inr sd \<Rightarrow>
     (case py_getitem data ''ORDER_TYPE'' of
        Inl e \<Rightarrow> Inl e
      | Inr v3 \<Rightarrow>
     (case py_lower v3 of
        Inl e \<Rightarrow> Inl e
      | Inr order_type \<Rightarrow> Inr (exchange_name, smb, sd, order_type))))))))"

text \<open>
  \<^verbatim>\<open>float(data[key])\<close> inside a \<^verbatim>\<open>try\<close> that catches ValueError only: the number, the
  rejection \<open>invalid\<close>, or another exception, which goes to the outer handler.
\<close>

definition read_number :: "json \<Rightarrow> string \<Rightarrow> signal_outcome \<Rightarrow> signal_outcome + pynum" where
  "read_number data key invalid =
     (case py_getitem data key of
        Inl e \<Rightarrow> Inl (ProcessingError e)
      | Inr v \<Rightarrow>
          (case py_float v of
             Inl e \<Rightarrow> Inl (if e = ValueError then invalid else ProcessingError e)
           | Inr n \<Rightarrow> Inr n))"

text \<open>The check of the price of a limit order; no price is read for another type.\<close>

definition read_price :: "json \<Rightarrow> string \<Rightarrow> signal_outcome + pynum option" where
  "read_price data order_type =
     (if order_type = ''limit''
      then (case py_contains data ''PRICE'' of
              Inl e \<Rightarrow> Inl (ProcessingError e)
            | Inr present \<Rightarrow>
                if present
                then (case read_number data ''PRICE'' InvalidPrice of
                        Inl out \<Rightarrow> Inl out
                      | Inr price \<Rightarrow> Inr (Some price))
                else Inl MissingPrice)
      else Inr None)"

text \<open>The part under the execution comment: the lookup of the exchange and the order.\<close>

definition submit_order ::
  "'w exchange_client \<Rightarrow> string \<Rightarrow> json \<Rightarrow> string \<Rightarrow> string \<Rightarrow> pynum \<Rightarrow> pynum option \<Rightarrow> 'w \<Rightarrow>
   signal_outcome \<times> 'w \<times> event list" where
  "submit_order ex exchange_name smb order_type sd quantity price w =
     (case create_order ex smb order_type sd quantity price w of
        (r, w1) \<Rightarrow>
          ((case r of Inl e \<Rightarrow> ProcessingError e | Inr order \<Rightarrow> OrderPlaced order),
           w1,
           [CreateOrder exchange_name smb order_type sd quantity price]))"

definition place_order ::
  "'w exchanges \<Rightarrow> string \<Rightarrow> json \<Rightarrow> string \<Rightarrow> string \<Rightarrow> pynum \<Rightarrow> pynum option \<Rightarrow> 'w \<Rightarrow>
   signal_outcome \<times> 'w \<times> event list" where
  "place_order exchanges exchange_name smb sd order_type quantity price w =
     (case map_of exchanges exchange_name of
        None \<Rightarrow> (ExchangeNotConfigured exchange_name, w, [])
      | Some ex \<Rightarrow>
          if order_type = ''limit''
          then submit_order ex exchange_name smb order_type sd quantity price w
          else if order_type = ''market''
          then submit_order ex exchange_name smb order_type sd quantity None w
          else (UnsupportedOrderType order_type, w, []))"

definition process_signal ::
  "'w exchanges \<Rightarrow> json \<Rightarrow> 'w \<Rightarrow> signal_outcome \<times> 'w \<times> event list" where
  "process_signal exchanges data w =
     (case first_missing data required_fields of
        Inl e \<Rightarrow> (ProcessingError e, w, [])
      | Inr (Some field) \<Rightarrow> (MissingField field, w, [])
      | Inr None \<Rightarrow>
     (case read_fields data of
        Inl e \<Rightarrow> (ProcessingError e, w, [])
      | Inr (exchange_name, smb, sd, order_type) \<Rightarrow>
     (case read_number data ''QUANTITY'' InvalidQuantity of
        Inl out \<Rightarrow> (out, w, [])
      | Inr quantity \<Rightarrow>
          if sd \<noteq> ''buy'' \<and> sd \<noteq> ''sell'' then (InvalidSide sd, w, [])
          else (case read_price data order_type of
                  Inl out \<Rightarrow> (out, w, [])
                | Inr price \<Rightarrow>
                    place_order exchanges exchange_name smb sd order_type quantity price w))))"

section \<open>webhook\_receiver.trade\_signal\<close>

text \<open>The body and the status of the response: \<^verbatim>\<open>jsonify({key: text}), code\<close>.\<close>

datatype body = Status string | Error string | ErrorText exn

type_synonym response = "body \<times> nat"

text \<open>What the two \<^verbatim>\<open>except\<close> clauses of the route answer to an exception.\<close>

definition on_exception :: "exn \<Rightarrow> response" where
  "on_exception e =
     (if e = JSONDecodeError then (Error ''Malformed JSON'', 400) else (ErrorText e, 500))"

text \<open>
  \<open>pin\<close> is \<^verbatim>\<open>config.WEBHOOK_PIN\<close>; \<open>request_json\<close> is what \<^verbatim>\<open>request.json\<close> evaluates
  to: an exception, or the parsed body (\<open>JNull\<close> for None).
\<close>

definition trade_signal ::
  "string \<Rightarrow> 'w exchanges \<Rightarrow> exn + json \<Rightarrow> 'w \<Rightarrow> response \<times> 'w \<times> event list" where
  "trade_signal pin exchanges request_json w =
     (case request_json of
        Inl e \<Rightarrow> (on_exception e, w, [])
      | Inr data \<Rightarrow>
          if data = JNull then ((Error ''No JSON data'', 400), w, [])
          else (case py_get data ''PIN'' (JStr []) of
                  Inl e \<Rightarrow> (on_exception e, w, [])
                | Inr incoming_pin \<Rightarrow>
                    if pin \<noteq> [] \<and> incoming_pin \<noteq> JStr pin
                    then ((Error ''Invalid pin'', 403), w, [])
                    else (case process_signal exchanges data w of
                            (out, w1, evs) \<Rightarrow> ((Status ''ok'', 200), w1, evs))))"

section \<open>email\_reader\<close>

text \<open>
  The characters U+200B, U+200C, U+200D and U+FEFF that the regular expression deletes,
  as their UTF-8 bytes.
\<close>

definition is_zero_width :: "char \<Rightarrow> char \<Rightarrow> char \<Rightarrow> bool" where
  "is_zero_width a b c =
     ((a = CHR 0xE2 \<and> b = CHR 0x80 \<and> (c = CHR 0x8B \<or> c = CHR 0x8C \<or> c = CHR 0x8D)) \<or>
      (a = CHR 0xEF \<and> b = CHR 0xBB \<and> c = CHR 0xBF))"

fun remove_zero_width :: "string \<Rightarrow> string" where
  "remove_zero_width (a # b # c # rest) =
     (if is_zero_width a b c then remove_zero_width rest
      else a # remove_zero_width (b # c # rest))"
| "remove_zero_width s = s"

text \<open>
  The two library functions of \<^verbatim>\<open>parse_email_subject\<close> that are taken as given:
  \<^verbatim>\<open>html.unescape\<close> and \<^verbatim>\<open>json.loads\<close>, which raises or returns the payload.
\<close>

record text_lib =
  html_unescape :: "string \<Rightarrow> string"
  json_loads :: "string \<Rightarrow> exn + json"

text \<open>
  The payload, \<open>None\<close> where the function returns None (no marker, or a JSONDecodeError,
  which it catches), or the exception that escapes it.
\<close>

definition parse_email_subject :: "text_lib \<Rightarrow> string \<Rightarrow> exn + json option" where
  "parse_email_subject lib subject_header =
     (let subject = strip subject_header in
      if take 6 subject = ''Alert:''
      then (let json_part = strip (drop 6 subject);
                json_part = html_unescape lib json_part;
                json_part = remove_zero_width json_part;
                json_part = filter (\<lambda>c. c \<noteq> CHR 0x0A \<and> c \<noteq> CHR 0x0D) json_part
            in case json_loads lib json_part of
                 Inl e \<Rightarrow> if e = JSONDecodeError then Inr None else Inl e
               | Inr v \<Rightarrow> Inr (Some v))
      else Inr None)"

text \<open>
  What becomes of one unread message in the loop of \<^verbatim>\<open>check_inbox\<close>, from the call of
  \<^verbatim>\<open>parse_email_subject\<close> on: left as it is because it is no signal, skipped for its
  PIN, handed to \<^verbatim>\<open>process_signal\<close> and then flagged as seen, or an exception caught
  by the \<^verbatim>\<open>except\<close> clause of the loop body.
\<close>

datatype message_outcome =
    NotASignal | PinRejected | Processed signal_outcome | MessageFailed exn

definition process_and_mark ::
  "'w exchanges \<Rightarrow> string \<Rightarrow> json \<Rightarrow> 'w \<Rightarrow> message_outcome \<times> 'w \<times> event list" where
  "process_and_mark exchanges e_id alert_data w =
     (case process_signal exchanges alert_data w of
        (out, w1, evs) \<Rightarrow> (Processed out, w1, evs @ [MarkSeen e_id]))"

definition check_message ::
  "text_lib \<Rightarrow> string \<Rightarrow> 'w exchanges \<Rightarrow> string \<Rightarrow> string \<Rightarrow> 'w \<Rightarrow>
   message_outcome \<times> 'w \<times> event list" where
  "check_message lib pin exchanges e_id subject_header w =
     (case parse_email_subject lib subject_header of
        Inl e \<Rightarrow> (MessageFailed e, w, [])
      | Inr None \<Rightarrow> (NotASignal, w, [])
      | Inr (Some alert_data) \<Rightarrow>
          if py_truthy alert_data
          then (if pin \<noteq> []
                then (case py_get alert_data ''PIN'' (JStr []) of
                        Inl e \<Rightarrow> (MessageFailed e, w, [])
                      | Inr incoming_pin \<Rightarrow>
                          if incoming_pin \<noteq> JStr pin then (PinRejected, w, [])
                          else process_and_mark exchanges e_id alert_data w)
                else process_and_mark exchanges e_id alert_data w)
          else (NotASignal, w, []))"

section \<open>Properties of events and of positions\<close>

text \<open>An order-creation call, an entry into \<^verbatim>\<open>close_position\<close>, a fetch of positions.\<close>

fun is_order :: "event \<Rightarrow> bool" where
  "is_order (CreateMarketOrder n s sd a) = True"
| "is_order (CreateOrder n s t sd q p) = True"
| "is_order ev = False"

fun is_close_attempt :: "event \<Rightarrow> bool" where
  "is_close_attempt (CloseAttempt n s) = True"
| "is_close_attempt ev = False"

fun is_fetch_positions :: "event \<Rightarrow> bool" where
  "is_fetch_positions (FetchPositions n) = True"
| "is_fetch_positions ev = False"

text \<open>A position whose contracts are a number greater than zero.\<close>

definition is_open :: "position \<Rightarrow> bool" where
  "is_open p = (case contracts p of None \<Rightarrow> False | Some c \<Rightarrow> num_gt c (Fin 0))"

definition all_open :: "positions_data \<Rightarrow> bool" where
  "all_open pd = (\<forall>(exchange_name, ps) \<in> set pd. \<forall>p \<in> set ps. is_open p)"

text \<open>An event that is no market order, or a market order for an amount greater than zero.\<close>

fun positive_amount :: "event \<Rightarrow> bool" where
  "positive_amount (CreateMarketOrder n s sd a) =
     (case a of None \<Rightarrow> False | Some c \<Rightarrow> num_gt c (Fin 0))"
| "positive_amount ev = True"

text \<open>
  The positions of a snapshot in the order in which \<^verbatim>\<open>close_all_positions\<close> visits them,
  the entries into \<^verbatim>\<open>close_position\<close> they call for, and the keys their results get.
\<close>

definition discovered :: "positions_data \<Rightarrow> (string \<times> position) list" where
  "discovered all_positions =
     concat (map (\<lambda>(exchange_name, ps). map (\<lambda>p. (exchange_name, p)) ps) all_positions)"

definition attempt_of :: "string \<times> position \<Rightarrow> event" where
  "attempt_of np = CloseAttempt (fst np) (symbol (snd np))"


section \<open>Concrete exchanges and payloads\<close>

definition raw_pos :: "string \<Rightarrow> string \<Rightarrow> pynum field \<Rightarrow> raw_position" where
  "raw_pos s sd c =
     \<lparr> r_symbol = Val s, r_side = Val sd, r_contracts = c, r_notional = Val (Fin 100),
       r_entryPrice = Absent, r_liquidationPrice = Null, r_marginRatio = Val (Fin (1 / 2)),
       r_leverage = Absent, r_unrealizedPnl = Val (Fin 3) \<rparr>"

text \<open>A client that answers every fetch the same way and accepts every order.\<close>

definition demo_client ::
  "exn + raw_position list \<Rightarrow> exn + balance \<Rightarrow> unit exchange_client" where
  "demo_client ps bal =
     \<lparr> fetch_positions = (\<lambda>w. (ps, w)),
       fetch_balance = (\<lambda>w. (bal, w)),
       create_market_order = (\<lambda>s sd a w. (Inr ''order'', w)),
       create_order = (\<lambda>s t sd q p w. (Inr ''order'', w)) \<rparr>"

definition usdt_1000 :: balance where
  "usdt_1000 = [(''USDT'', [(''free'', Some (Fin 400)), (''total'', Some (Fin 1000))])]"

text \<open>Binance with one long position of 2 contracts.\<close>

definition long_client :: "unit exchange_client" where
  "long_client = demo_client (Inr [raw_pos ''BTC/USDT'' ''long'' (Val (Fin 2))]) (Inr usdt_1000)"

definition one_long :: "unit exchanges" where
  "one_long = [(''binance'', long_client)]"

text \<open>Binance in hedge mode: a long and a short position in the same symbol.\<close>

definition hedged :: "unit exchanges" where
  "hedged =
     [(''binance'',
       demo_client
         (Inr [raw_pos ''BTC/USDT'' ''long'' (Val (Fin 1)),
               raw_pos ''BTC/USDT'' ''short'' (Val (Fin 2))])
         (Inr usdt_1000))]"

text \<open>Binance with positions in two symbols.\<close>

definition two_symbols :: "unit exchanges" where
  "two_symbols =
     [(''binance'',
       demo_client
         (Inr [raw_pos ''BTC/USDT'' ''long'' (Val (Fin 1)),
               raw_pos ''ETH/USDT'' ''short'' (Val (Fin 2))])
         (Inr usdt_1000))]"

text \<open>Binance reporting closed positions among the open ones, and one without a size.\<close>

definition mixed :: "unit exchanges" where
  "mixed =
     [(''binance'',
       demo_client
         (Inr [raw_pos ''BTC/USDT'' ''long'' (Val (Fin 0)),
               raw_pos ''ETH/USDT'' ''long'' Absent,
               raw_pos ''SOL/USDT'' ''short'' (Val (Fin 2)),
               raw_pos ''XRP/USDT'' ''short'' Null,
               raw_pos ''ADA/USDT'' ''long'' (Val (Fin 5))])
         (Inr usdt_1000))]"

text \<open>A client of an exchange that cannot be reached: every fetch raises.\<close>

definition down_client :: "unit exchange_client" where
  "down_client = demo_client (Inl (ExchangeError ''timeout'')) (Inl (ExchangeError ''timeout''))"

definition signal :: "string \<Rightarrow> string \<Rightarrow> json \<Rightarrow> (string \<times> json) list" where
  "signal exchange_name order_type quantity =
     [(''EXCHANGE'', JStr exchange_name), (''SYMBOL'', JStr ''BTC/USDT''),
      (''SIDE'', JStr ''BUY''), (''ORDER_TYPE'', JStr order_type), (''QUANTITY'', quantity)]"

text \<open>A library that knows one subject: a payload that holds nothing but the PIN 0000.\<close>

definition pin_0000 :: "(string \<times> json) list" where
  "pin_0000 = [(''PIN'', JStr ''0000'')]"

definition stub_lib :: text_lib where
  "stub_lib =
     \<lparr> html_unescape = (\<lambda>s. s),
       json_loads = (\<lambda>s. if s = ''{'' @ [CHR 0x22] @ ''PIN'' @ [CHR 0x22] @ '': '' @
                                 [CHR 0x22] @ ''0000'' @ [CHR 0x22] @ ''}''
                          then Inr (JObj pin_0000) else Inl JSONDecodeError) \<rparr>"

definition alert_subject :: string where
  "alert_subject = ''Alert: {'' @ [CHR 0x22] @ ''PIN'' @ [CHR 0x22] @ '': '' @
                   [CHR 0x22] @ ''0000'' @ [CHR 0x22] @ ''}''"

section \<open>get\_positions returns open positions only\<close>

lemma is_open_normalize:
  "dict_get (r_contracts pos) (Some (Fin 0)) = Some c \<Longrightarrow> num_gt c (Fin 0) \<Longrightarrow>
   is_open (normalize n pos)"
  by (simp add: is_open_def normalize_def)

lemma is_open_iff: "is_open p \<longleftrightarrow> (\<exists>c. contracts p = Some c \<and> num_gt c (Fin 0))"
  by (cases "contracts p") (auto simp: is_open_def)

lemma active_positions_open:
  "\<forall>p \<in> set acc. is_open p \<Longrightarrow> \<forall>p \<in> set (active_positions n raws acc). is_open p"
proof (induction raws arbitrary: acc)
  case Nil
  then show ?case by simp
next
  case (Cons pos rest)
  show ?case
  proof (cases "dict_get (r_contracts pos) (Some (Fin 0))")
    case None
    then show ?thesis using Cons.prems by simp
  next
    case (Some c)
    show ?thesis
    proof (cases "num_gt c (Fin 0)")
      case True
      have "\<forall>p \<in> set (acc @ [normalize n pos]). is_open p"
        using Cons.prems is_open_normalize[OF Some True] by simp
      from Cons.IH[OF this] show ?thesis using Some True by simp
    next
      case False
      then show ?thesis using Some Cons.IH[OF Cons.prems] by simp
    qed
  qed
qed

lemma set_update_subset: "set (AList.update k v al) \<subseteq> insert (k, v) (set al)"
  by (induction al) auto

lemma all_open_update:
  "all_open pd \<Longrightarrow> \<forall>p \<in> set ps. is_open p \<Longrightarrow> all_open (AList.update k ps pd)"
  unfolding all_open_def using set_update_subset[of k ps pd] by fastforce

lemma get_positions_loop_open:
  "all_open pd \<Longrightarrow> all_open (fst (get_positions_loop exs pd w))"
proof (induction exs arbitrary: pd w)
  case Nil
  then show ?case by simp
next
  case (Cons a exs)
  obtain name ex where a: "a = (name, ex)" by (cases a)
  have pd0: "all_open (AList.update name [] pd)"
    using Cons.prems by (simp add: all_open_update)
  obtain r w1 where f: "fetch_positions ex w = (r, w1)" by (cases "fetch_positions ex w")
  show ?case
  proof (cases r)
    case (Inl e)
    then show ?thesis using a f Cons.IH[OF pd0, of w1]
      by (auto split: prod.splits)
  next
    case (Inr raws)
    have ap: "\<forall>p \<in> set (active_positions name raws []). is_open p"
      using active_positions_open[of "[]" name raws] by simp
    have "all_open (AList.update name (active_positions name raws []) (AList.update name [] pd))"
      by (rule all_open_update[OF pd0 ap])
    from Cons.IH[OF this, of w1] show ?thesis using a f Inr
      by (auto split: prod.splits)
  qed
qed

lemma get_positions_open: "all_open (fst (get_positions exs w))"
  using get_positions_loop_open[of "[]" exs w]
  by (simp add: get_positions_def all_open_def)

lemma positions_of_open:
  assumes "all_open pd"
  shows "\<forall>p \<in> set (positions_of pd n). is_open p"
proof (cases "map_of pd n")
  case None
  then show ?thesis by (simp add: positions_of_def)
next
  case (Some ps)
  then have "(n, ps) \<in> set pd" by (rule map_of_SomeD)
  then show ?thesis using assms Some unfolding all_open_def positions_of_def by auto
qed

section \<open>The events of get\_positions and of close\_position\<close>

lemma get_positions_loop_events:
  "\<forall>ev \<in> set (snd (snd (get_positions_loop exs pd w))). is_fetch_positions ev"
proof (induction exs arbitrary: pd w)
  case Nil
  then show ?case by simp
next
  case (Cons a exs)
  obtain name ex where a: "a = (name, ex)" by (cases a)
  obtain r w1 where f: "fetch_positions ex w = (r, w1)" by (cases "fetch_positions ex w")
  show ?case
  proof (cases r)
    case (Inl e)
    then show ?thesis using a f Cons.IH[of "AList.update name [] pd" w1]
      by (auto split: prod.splits)
  next
    case (Inr raws)
    then show ?thesis
      using a f
        Cons.IH[of "AList.update name (active_positions name raws []) (AList.update name [] pd)" w1]
      by (auto split: prod.splits)
  qed
qed

lemma get_positions_events:
  "get_positions exs w = (pd, w1, evs) \<Longrightarrow> \<forall>ev \<in> set evs. is_fetch_positions ev"
  using get_positions_loop_events[of exs "[]" w]
  by (auto simp: get_positions_def split: if_splits)

lemma fetch_is_nothing_else:
  "is_fetch_positions ev \<Longrightarrow> \<not> is_order ev \<and> \<not> is_close_attempt ev \<and> positive_amount ev"
  by (cases ev) auto

lemma get_positions_only_fetches:
  assumes "get_positions exs w = (pd, w1, evs)"
  shows "filter is_order evs = []" and "filter is_close_attempt evs = []"
    and "\<forall>ev \<in> set evs. positive_amount ev"
  using get_positions_events[OF assms] fetch_is_nothing_else
  by (auto simp: filter_empty_conv)

lemma close_position_events:
  "(\<exists>evs. snd (snd (close_position exs n t w)) = CloseAttempt n t # evs \<and>
      filter is_close_attempt evs = [] \<and> (\<forall>ev \<in> set evs. positive_amount ev))"
proof (cases "map_of exs n")
  case None
  then show ?thesis by (simp add: close_position_def)
next
  case (Some ex)
  obtain pd w1 evs where g: "get_positions exs w = (pd, w1, evs)"
    by (cases "get_positions exs w") auto
  note only = get_positions_only_fetches[OF g]
  show ?thesis
  proof (cases "find (\<lambda>pos. symbol pos = t) (positions_of pd n)")
    case None
    then show ?thesis using Some g only by (simp add: close_position_def)
  next
    case found: (Some pos)
    then have "pos \<in> set (positions_of pd n)"
      by (auto simp: find_Some_iff)
    moreover have "all_open pd" using get_positions_open[of exs w] g by simp
    ultimately have "is_open pos" using positions_of_open by blast
    then have pa: "positive_amount (CreateMarketOrder n t (closing_side (side pos)) (contracts pos))"
      by (simp add: is_open_def)
    obtain r w2 where
      c: "create_market_order ex t (closing_side (side pos)) (contracts pos) w1 = (r, w2)"
      by (cases "create_market_order ex t (closing_side (side pos)) (contracts pos) w1")
    have "snd (snd (close_position exs n t w)) =
            CloseAttempt n t # evs @
              [CreateMarketOrder n t (closing_side (side pos)) (contracts pos)]"
      using Some g found c by (simp add: close_position_def)
    then show ?thesis using only pa by simp
  qed
qed

lemma close_each_events:
  "filter is_close_attempt (snd (snd (close_each exs n ps res w))) =
     map (\<lambda>p. CloseAttempt n (symbol p)) ps \<and>
   (\<forall>ev \<in> set (snd (snd (close_each exs n ps res w))). positive_amount ev)"
proof (induction ps arbitrary: res w)
  case Nil
  then show ?case by simp
next
  case (Cons pos rest)
  obtain r w1 evs1 where c: "close_position exs n (symbol pos) w = (r, w1, evs1)"
    by (cases "close_position exs n (symbol pos) w") auto
  obtain evs where e: "evs1 = CloseAttempt n (symbol pos) # evs"
    "filter is_close_attempt evs = []" "\<forall>ev \<in> set evs. positive_amount ev"
    using close_position_events[of exs n "symbol pos" w] c by auto
  obtain res2 w2 evs2 where
    r: "close_each exs n rest (AList.update (result_key n (symbol pos)) r res) w1 = (res2, w2, evs2)"
    by (cases "close_each exs n rest (AList.update (result_key n (symbol pos)) r res) w1") auto
  have "snd (snd (close_each exs n (pos # rest) res w)) = evs1 @ evs2"
    using c r by simp
  then show ?case
    using e Cons.IH[of "AList.update (result_key n (symbol pos)) r res" w1] r by auto
qed

lemma close_all_loop_events:
  "filter is_close_attempt (snd (snd (close_all_loop exs all res w))) =
     map attempt_of (discovered all) \<and>
   (\<forall>ev \<in> set (snd (snd (close_all_loop exs all res w))). positive_amount ev)"
proof (induction all arbitrary: res w)
  case Nil
  then show ?case by (simp add: discovered_def)
next
  case (Cons a rest)
  obtain n ps where a: "a = (n, ps)" by (cases a)
  obtain res1 w1 evs1 where c: "close_each exs n ps res w = (res1, w1, evs1)"
    by (cases "close_each exs n ps res w") auto
  obtain res2 w2 evs2 where r: "close_all_loop exs rest res1 w1 = (res2, w2, evs2)"
    by (cases "close_all_loop exs rest res1 w1") auto
  have "snd (snd (close_all_loop exs (a # rest) res w)) = evs1 @ evs2"
    using a c r by simp
  then show ?case
    using close_each_events[of exs n ps res w] c Cons.IH[of res1 w1] r a
    by (auto simp: discovered_def attempt_of_def comp_def)
qed

text \<open>
  C10. Every position that \<^verbatim>\<open>get_positions\<close> returns has a contracts count that is a number
  greater than zero, so a position of size zero, or with no size, is in none of the lists it
  returns; and every market order that \<^verbatim>\<open>close_position\<close> or \<^verbatim>\<open>close_all_positions\<close>
  sends is for such an amount.
\<close>

theorem get_positions_contracts_positive:
  "(\<forall>(exchange_name, ps) \<in> set (fst (get_positions exchanges w)). \<forall>p \<in> set ps.
      \<exists>c. contracts p = Some c \<and> num_gt c (Fin 0)) \<and>
   (\<forall>ev \<in> set (snd (snd (close_position exchanges exchange_name target w))).
      positive_amount ev) \<and>
   (\<forall>ev \<in> set (snd (snd (close_all_positions exchanges w))). positive_amount ev)"
proof (intro conjI)
  have "all_open (fst (get_positions exchanges w))" by (rule get_positions_open)
  then show "\<forall>(exchange_name, ps) \<in> set (fst (get_positions exchanges w)). \<forall>p \<in> set ps.
      \<exists>c. contracts p = Some c \<and> num_gt c (Fin 0)"
    unfolding all_open_def is_open_iff by simp
next
  show "\<forall>ev \<in> set (snd (snd (close_position exchanges exchange_name target w))).
      positive_amount ev"
    using close_position_events[of exchanges exchange_name target w] by auto
next
  obtain all w1 evs1 where g: "get_positions exchanges w = (all, w1, evs1)"
    by (cases "get_positions exchanges w") auto
  obtain res w2 evs2 where l: "close_all_loop exchanges all [] w1 = (res, w2, evs2)"
    by (cases "close_all_loop exchanges all [] w1") auto
  have "snd (snd (close_all_positions exchanges w)) = evs1 @ evs2"
    using g l by (simp add: close_all_positions_def)
  then show "\<forall>ev \<in> set (snd (snd (close_all_positions exchanges w))). positive_amount ev"
    using get_positions_only_fetches(3)[OF g] close_all_loop_events[of exchanges all "[]" w1] l
    by auto
qed

lemmas fixture_defs =
  raw_pos_def demo_client_def usdt_1000_def long_client_def one_long_def hedged_def
  two_symbols_def mixed_def down_client_def

lemmas positions_defs =
  get_positions_def normalize_def positions_of_def

theorem get_positions_contracts_positive_witness:
  "map (\<lambda>(exchange_name, ps). (exchange_name, map (\<lambda>p. (symbol p, contracts p)) ps))
     (fst (get_positions mixed ())) = [(''binance'', [(Some ''SOL/USDT'', Some (Fin 2))])] \<and>
   (\<exists>c. Some (Fin 2) = Some c \<and> num_gt c (Fin 0))"
proof -
  have g: "map (\<lambda>(exchange_name, ps). (exchange_name, map (\<lambda>p. (symbol p, contracts p)) ps))
     (fst (get_positions mixed ())) = [(''binance'', [(Some ''SOL/USDT'', Some (Fin 2))])]"
    by (simp add: fixture_defs positions_defs)
  then obtain p where "(''binance'', [p]) \<in> set (fst (get_positions mixed ()))"
    "contracts p = Some (Fin 2)"
    by (auto simp: fixture_defs positions_defs)
  then have "\<exists>c. Some (Fin 2) = Some c \<and> num_gt c (Fin 0)"
    using get_positions_contracts_positive[of mixed "()" "''binance''" None] by fastforce
  then show ?thesis using g by simp
qed

section \<open>close\_position\<close>

text \<open>
  C7. When the exchange is configured and none of its open positions, as
  \<^verbatim>\<open>get_positions\<close> returns them, has the requested symbol, \<^verbatim>\<open>close_position\<close> returns
  the no-open-position error and makes no order-creation call.
\<close>

theorem close_position_no_open_position:
  assumes "map_of exchanges exchange_name = Some ex"
    and "get_positions exchanges w = (pd, w1, evs)"
    and "\<forall>pos \<in> set (positions_of pd exchange_name). symbol pos \<noteq> target"
  shows "fst (close_position exchanges exchange_name target w) = NoOpenPosition \<and>
         filter is_order (snd (snd (close_position exchanges exchange_name target w))) = []"
proof -
  have "find (\<lambda>pos. symbol pos = target) (positions_of pd exchange_name) = None"
    using assms(3) by (simp add: find_None_iff)
  then have "close_position exchanges exchange_name target w =
             (NoOpenPosition, w1, CloseAttempt exchange_name target # evs)"
    using assms(1,2) by (simp add: close_position_def)
  then show ?thesis using get_positions_only_fetches(1)[OF assms(2)] by simp
qed

theorem close_position_no_open_position_witness:
  "fst (close_position one_long ''binance'' (Some ''ETH/USDT'') ()) = NoOpenPosition \<and>
   filter is_order (snd (snd (close_position one_long ''binance'' (Some ''ETH/USDT'') ()))) = []"
proof -
  have configured: "map_of one_long ''binance'' = Some long_client"
    by (simp add: one_long_def)
  obtain pd evs where g: "get_positions one_long () = (pd, (), evs)"
    by (cases "get_positions one_long ()") auto
  have "map symbol (positions_of pd ''binance'') = [Some ''BTC/USDT'']"
    using g by (auto simp: fixture_defs positions_defs)
  then have "\<forall>pos \<in> set (positions_of pd ''binance''). symbol pos \<noteq> Some ''ETH/USDT''"
    by auto
  from close_position_no_open_position[OF configured g this] show ?thesis .
qed



section \<open>close\_all\_positions\<close>









section \<open>The fan-out reads when an exchange fails\<close>



lemma update_at_end: "k \<notin> fst ` set al \<Longrightarrow> AList.update k v (al @ [(k, v')]) = al @ [(k, v)]"
  by (induction al) auto








lemmas summary_defs =
  calculate_summary_stats_def add_exchange_def usdt_total_def zero_stats_def position_get_def
  position_items_def of_num_def of_str_def


section \<open>calculate\_summary\_stats never counts margin\<close>

lemma no_marginRatio_key: "position_get pos ''marginRatio'' PyNone = PyNone"
  by (simp add: position_get_def position_items_def)

lemma add_positions_margin: "margin_used (fst (add_positions ps st)) = margin_used st"
proof (induction ps arbitrary: st)
  case Nil
  then show ?case by simp
next
  case (Cons pos rest)
  show ?case
  proof (cases "py_iadd (total_pnl st) (position_get pos ''unrealized_pnl'' (PyNum (Fin 0)))")
    case (Inl e)
    then show ?thesis by simp
  next
    case (Inr pnl)
    then show ?thesis using Cons.IH[of "st\<lparr>total_pnl := pnl\<rparr>"]
      by (simp add: no_marginRatio_key)
  qed
qed

lemma add_exchange_margin: "margin_used (fst (add_exchange bal ps st)) = margin_used st"
  by (cases "py_iadd (portfolio_value st) (usdt_total bal)")
     (simp_all add: add_exchange_def add_positions_margin)

lemma summary_loop_margin: "margin_used (fst (summary_loop exs all st w)) = margin_used st"
proof (induction exs arbitrary: st w)
  case Nil
  then show ?case by simp
next
  case (Cons a exs)
  obtain name ex where a: "a = (name, ex)" by (cases a)
  obtain r w1 where f: "fetch_balance ex w = (r, w1)" by (cases "fetch_balance ex w")
  show ?case
  proof (cases r)
    case (Inl e)
    then show ?thesis using a f Cons.IH[of st w1] by (auto split: prod.splits)
  next
    case (Inr bal)
    then show ?thesis
      using a f Cons.IH[of "fst (add_exchange bal (positions_of all name) st)" w1]
      by (auto split: prod.splits simp: add_exchange_margin)
  qed
qed

lemma margin_used_is_zero: "margin_used (fst (calculate_summary_stats exs w)) = Fin 0"
proof (cases "exs = []")
  case True
  then show ?thesis by (simp add: calculate_summary_stats_def zero_stats_def)
next
  case False
  obtain all w1 evs1 where g: "get_positions exs w = (all, w1, evs1)"
    by (cases "get_positions exs w") auto
  have "fst (calculate_summary_stats exs w) = fst (summary_loop exs all zero_stats w1)"
    using False g by (simp add: calculate_summary_stats_def split: prod.splits)
  then show ?thesis using summary_loop_margin[of exs all zero_stats w1]
    by (simp add: zero_stats_def)
qed

text \<open>
  C1 does not hold of the code. Binance reports one open position with a notional value
  of 100 and a margin ratio of 1/2, so its contribution to the margin used is 50; the
  position that \<^verbatim>\<open>get_positions\<close> returns holds both numbers, under the keys
  \<^verbatim>\<open>notional\<close> and \<^verbatim>\<open>margin_ratio\<close>. The summary reads the key \<^verbatim>\<open>marginRatio\<close>, which no
  returned position has, and reports a margin used of 0, as it does for every input. The
  portfolio value and the total PnL are the balance and the PnL of the position.
\<close>

theorem summary_margin_used_not_accumulated:
  "map (\<lambda>p. (notional p, margin_ratio p))
     (positions_of (fst (get_positions one_long ())) ''binance'') =
     [(Some (Fin 100), Some (Fin (1 / 2)))] \<and>
   py_mul (PyNum (Fin 100)) (PyNum (Fin (1 / 2))) = Inr (PyNum (Fin 50)) \<and>
   fst (calculate_summary_stats one_long ()) =
     \<lparr> portfolio_value = Fin 1000, total_pnl = Fin 3, margin_used = Fin 0 \<rparr> \<and>
   margin_used (fst (calculate_summary_stats exchanges w)) = Fin 0"
proof -
  have "map (\<lambda>p. (notional p, margin_ratio p))
          (positions_of (fst (get_positions one_long ())) ''binance'') =
          [(Some (Fin 100), Some (Fin (1 / 2)))]"
    by (simp add: fixture_defs positions_defs)
  moreover have "py_mul (PyNum (Fin 100)) (PyNum (Fin (1 / 2))) = Inr (PyNum (Fin 50))"
    by simp
  moreover have "fst (calculate_summary_stats one_long ()) =
      \<lparr> portfolio_value = Fin 1000, total_pnl = Fin 3, margin_used = Fin 0 \<rparr>"
    by (simp add: fixture_defs positions_defs summary_defs)
  moreover have "margin_used (fst (calculate_summary_stats exchanges w)) = Fin 0"
    by (rule margin_used_is_zero)
  ultimately show ?thesis by blast
qed

section \<open>process\_signal\<close>








lemmas text_defs =
  lower_def lower_char_def strip_def is_space_def split_sign_def parse_float_def number_part_def
  digitpart_def is_digit_def exponent_part_def


lemmas signal_defs =
  process_signal_def required_fields_def read_fields_def read_number_def read_price_def
  place_order_def submit_order_def signal_def






section \<open>trade\_signal\<close>

text \<open>
  C8, as the code has it. When the body of the request is a JSON object, and its PIN is the
  configured one if one is configured, the response is the acknowledgment with status 200,
  and what happens to the world is what \<^verbatim>\<open>process_signal\<close> does: no outcome of the
  validation or of the order changes the response.
\<close>

theorem webhook_acknowledges:
  assumes "pin = [] \<or> map_of d ''PIN'' = Some (JStr pin)"
  shows "trade_signal pin exchanges (Inr (JObj d)) w =
           ((Status ''ok'', 200), snd (process_signal exchanges (JObj d) w))"
  using assms by (auto simp: trade_signal_def split: prod.splits option.splits)

theorem webhook_acknowledges_witness:
  "process_signal one_long (JObj (signal ''binance'' ''market'' (JStr ''abc''))) () =
     (InvalidQuantity, (), []) \<and>
   trade_signal [] one_long (Inr (JObj (signal ''binance'' ''market'' (JStr ''abc'')))) () =
     ((Status ''ok'', 200), (), [])"
proof -
  have p: "process_signal one_long (JObj (signal ''binance'' ''market'' (JStr ''abc''))) () =
     (InvalidQuantity, (), [])"
    by (simp add: text_defs signal_defs)
  have "[] = [] \<or> map_of (signal ''binance'' ''market'' (JStr ''abc'')) ''PIN'' = Some (JStr [])"
    by simp
  from webhook_acknowledges[OF this, of one_long "()"] p show ?thesis by simp
qed

text \<open>
  C8 as it is stated fails for a well-formed body that is no object: with no PIN
  configured, the body \<^verbatim>\<open>[]\<close> is answered with status 500.
\<close>

theorem webhook_array_body_counterexample:
  "trade_signal [] one_long (Inr (JArr [])) () = ((ErrorText AttributeError, 500), (), [])"
  by (simp add: trade_signal_def on_exception_def)

section \<open>check\_inbox\<close>

text \<open>
  C2, as the code has it. Let the subject parse to a payload, a PIN be configured, and the
  PIN of the payload not be that PIN. Then the message is not handed to
  \<^verbatim>\<open>process_signal\<close> and nothing is done to it or to an exchange: it is not flagged as
  seen. For a payload that is a non-empty object the message is skipped for its PIN. The
  check reads the PIN from the parsed payload.
\<close>

theorem email_pin_mismatch:
  assumes "parse_email_subject lib subject_header = Inr (Some payload)"
    and "pin \<noteq> []"
    and "py_get payload ''PIN'' (JStr []) \<noteq> Inr (JStr pin)"
  shows "snd (check_message lib pin exchanges e_id subject_header w) = (w, []) \<and>
         (\<forall>out. fst (check_message lib pin exchanges e_id subject_header w) \<noteq> Processed out) \<and>
         (\<forall>d. payload = JObj d \<and> d \<noteq> [] \<longrightarrow>
            fst (check_message lib pin exchanges e_id subject_header w) = PinRejected)"
proof (cases "py_get payload ''PIN'' (JStr [])")
  case (Inl e)
  then have "\<forall>d. payload \<noteq> JObj d" by (cases payload) auto
  then show ?thesis using assms Inl by (simp add: check_message_def)
next
  case (Inr incoming_pin)
  then show ?thesis using assms by (auto simp: check_message_def)
qed

theorem email_pin_mismatch_witness:
  "snd (check_message stub_lib ''1234'' one_long ''7'' alert_subject ()) = ((), []) \<and>
   fst (check_message stub_lib ''1234'' one_long ''7'' alert_subject ()) = PinRejected"
proof -
  have p: "parse_email_subject stub_lib alert_subject = Inr (Some (JObj pin_0000))"
    by (simp add: parse_email_subject_def stub_lib_def alert_subject_def strip_def is_space_def
          is_zero_width_def)
  have n: "''1234'' \<noteq> []" by simp
  have m: "py_get (JObj pin_0000) ''PIN'' (JStr []) \<noteq> Inr (JStr ''1234'')"
    by (simp add: pin_0000_def)
  have "pin_0000 \<noteq> []" by (simp add: pin_0000_def)
  with email_pin_mismatch[OF p n m, of one_long "''7''" "()"] show ?thesis by simp
qed

text \<open>
  C2 as it is stated fails: a message whose payload holds the PIN 0000, read with the PIN
  1234 configured, is skipped, and no \<^verbatim>\<open>mail.store\<close> flags it as seen.
\<close>

theorem email_pin_mismatch_counterexample:
  "parse_email_subject stub_lib alert_subject = Inr (Some (JObj pin_0000)) \<and>
   check_message stub_lib ''1234'' one_long ''7'' alert_subject () = (PinRejected, (), []) \<and>
   MarkSeen ''7'' \<notin> set (snd (snd (check_message stub_lib ''1234'' one_long ''7'' alert_subject ())))"
  by (simp add: check_message_def parse_email_subject_def stub_lib_def alert_subject_def
        strip_def is_space_def is_zero_width_def pin_0000_def)

end
